theory Spec2Isabelle
  imports Complex_Main "HOL-Library.Word" "HOL-Library.AList" "HOL-Library.Multiset"
begin

section \<open>Strings, numbers and objects of the host language\<close>

text \<open>
  The component file \<^verbatim>\<open>db-assistant.tsx\<close> is TypeScript. Its strings are sequences of
  16-bit code units, so a string is a list of 16-bit words; \<open>str\<close> embeds an ASCII
  literal. The counts the file adds up (tokens, requests) are whole numbers; they are
  modelled as unbounded integers, which is exact as long as every sum stays below
  \<open>2 ^ 53\<close>, where the host's numbers stop being exact.
\<close>

type_synonym jsstring = "16 word list"

definition str :: "string \<Rightarrow> jsstring" where
  "str s = map of_char s"

text \<open>
  \<^verbatim>\<open>String.prototype.trim\<close> strips white space and line terminators from both ends:
  TAB, LF, VT, FF, CR, SPACE, NBSP, the Unicode space separators (U+1680,
  U+2000..U+200A, U+202F, U+205F, U+3000), the line and paragraph separators
  (U+2028, U+2029) and the byte order mark U+FEFF.
\<close>

definition isWhiteSpace :: "16 word \<Rightarrow> bool" where
  "isWhiteSpace c =
     (c \<in> set [0x0009, 0x000A, 0x000B, 0x000C, 0x000D, 0x0020, 0x00A0, 0x1680,
                0x2000, 0x2001, 0x2002, 0x2003, 0x2004, 0x2005, 0x2006, 0x2007,
                0x2008, 0x2009, 0x200A, 0x2028, 0x2029, 0x202F, 0x205F, 0x3000,
                0xFEFF])"

definition trim :: "jsstring \<Rightarrow> jsstring" where
  "trim s = rev (dropWhile isWhiteSpace (rev (dropWhile isWhiteSpace s)))"

text \<open>A string is truthy exactly when it is not empty.\<close>

definition truthy :: "jsstring \<Rightarrow> bool" where
  "truthy s = (s \<noteq> [])"

text \<open>
  An object literal \<^verbatim>\<open>{}\<close> used as a dictionary: its own properties in creation
  order, as an association list. Writing a key that is present keeps its position,
  writing a new key appends it (\<open>AList.update\<close> does both).

  Reading \<^verbatim>\<open>obj[key]\<close> also sees what the object inherits from \<^verbatim>\<open>Object.prototype\<close>:
  for the twelve names below the read yields a built-in (a function, or the prototype
  itself for \<^verbatim>\<open>__proto__\<close>), which is truthy and is no own property.
\<close>

type_synonym 'v js_object = "(jsstring \<times> 'v) list"

definition objectPrototypeKeys :: "jsstring list" where
  "objectPrototypeKeys =
     [str ''constructor'', str ''hasOwnProperty'', str ''isPrototypeOf'',
      str ''propertyIsEnumerable'', str ''toLocaleString'', str ''toString'',
      str ''valueOf'', str ''__proto__'', str ''__defineGetter__'',
      str ''__defineSetter__'', str ''__lookupGetter__'', str ''__lookupSetter__'']"

datatype 'v js_read = Undefined | Builtin | Own 'v

definition getProp :: "'v js_object \<Rightarrow> jsstring \<Rightarrow> 'v js_read" where
  "getProp obj key =
     (case map_of obj key of
        Some v \<Rightarrow> Own v
      | None \<Rightarrow> if key \<in> set objectPrototypeKeys then Builtin else Undefined)"

text \<open>
  \<^verbatim>\<open>Object.values\<close> lists the own properties with the array-index keys first, in
  ascending numeric order, and the other keys after them in creation order. An array
  index is the canonical decimal form of a number below \<open>2 ^ 32 - 1\<close>.
\<close>

definition isDigit :: "16 word \<Rightarrow> bool" where
  "isDigit c = (0x30 \<le> c \<and> c \<le> 0x39)"

definition decimal :: "jsstring \<Rightarrow> int" where
  "decimal s = foldl (\<lambda>n c. 10 * n + (uint c - 48)) 0 s"

definition arrayIndex :: "jsstring \<Rightarrow> int option" where
  "arrayIndex s =
     (if s \<noteq> [] \<and> list_all isDigit s \<and> (length s = 1 \<or> hd s \<noteq> 0x30)
         \<and> decimal s < 4294967295
      then Some (decimal s) else None)"

definition object_values :: "'v js_object \<Rightarrow> 'v list" where
  "object_values obj =
     map snd (sort_key (\<lambda>p. the (arrayIndex (fst p))) (filter (\<lambda>p. arrayIndex (fst p) \<noteq> None) obj))
     @ map snd (filter (\<lambda>p. arrayIndex (fst p) = None) obj)"

text \<open>
  \<^verbatim>\<open>Array.prototype.sort\<close> with a comparator is a stable sort: \<open>a\<close> stays before \<open>b\<close>
  unless the comparator's result for \<open>(a, b)\<close> is positive. A result that is not a
  number (\<open>None\<close>) counts as zero. Where the comparator is not a consistent order the
  host leaves the resulting order open; the insertion sort below is then one of the
  orders allowed.
\<close>

fun insort_by :: "('a \<Rightarrow> 'a \<Rightarrow> int option) \<Rightarrow> 'a \<Rightarrow> 'a list \<Rightarrow> 'a list" where
  "insort_by cmp x [] = [x]"
| "insort_by cmp x (y # ys) =
     (if (case cmp x y of None \<Rightarrow> 0 | Some v \<Rightarrow> v) \<le> 0 then x # y # ys
      else y # insort_by cmp x ys)"

definition js_sort :: "('a \<Rightarrow> 'a \<Rightarrow> int option) \<Rightarrow> 'a list \<Rightarrow> 'a list" where
  "js_sort cmp xs = foldr (insort_by cmp) xs []"

section \<open>The usage aggregator of UsageStatistics\<close>

record UsageStat =
  date :: jsstring
  tokens_used :: int
  request_count :: int
  model_name :: jsstring
  provider :: jsstring

text \<open>The per-model entry and the per-date bucket the reducer builds.\<close>

record model_entry =
  name_e :: jsstring
  provider_e :: jsstring
  tokens :: int
  requests :: int

record day_bucket =
  date_b :: jsstring
  totalTokens :: int
  totalRequests :: int
  models_b :: "model_entry js_object"

datatype js_exception = TypeError

definition modelKey :: "UsageStat \<Rightarrow> jsstring" where
  "modelKey stat = provider stat @ str ''-'' @ model_name stat"

text \<open>
  The object literals of the two \<^verbatim>\<open>if\<close> bodies, and the additions that follow each.
\<close>

definition emptyEntry :: "UsageStat \<Rightarrow> model_entry" where
  "emptyEntry stat =
     \<lparr>name_e = model_name stat, provider_e = provider stat, tokens = 0, requests = 0\<rparr>"

definition addToEntry :: "UsageStat \<Rightarrow> model_entry \<Rightarrow> model_entry" where
  "addToEntry stat e =
     e\<lparr>tokens := tokens e + tokens_used stat, requests := requests e + request_count stat\<rparr>"

text \<open>
  The second \<^verbatim>\<open>if\<close> and the two additions after it, on the models of one bucket.
  Were the read of the key to yield a built-in, the additions would land on that
  built-in and the bucket's own entries would stay as they are.
\<close>

definition addToModels :: "UsageStat \<Rightarrow> model_entry js_object \<Rightarrow> model_entry js_object" where
  "addToModels stat ms =
     (let key = modelKey stat;
          ms1 = (case getProp ms key of
                   Undefined \<Rightarrow> AList.update key (emptyEntry stat) ms
                 | _ \<Rightarrow> ms)
      in case getProp ms1 key of
           Own e \<Rightarrow> AList.update key (addToEntry stat e) ms1
         | _ \<Rightarrow> ms1)"

definition emptyBucket :: "jsstring \<Rightarrow> day_bucket" where
  "emptyBucket d = \<lparr>date_b = d, totalTokens = 0, totalRequests = 0, models_b = []\<rparr>"

definition addToBucket :: "UsageStat \<Rightarrow> day_bucket \<Rightarrow> day_bucket" where
  "addToBucket stat b =
     b\<lparr>totalTokens := totalTokens b + tokens_used stat,
       totalRequests := totalRequests b + request_count stat,
       models_b := addToModels stat (models_b b)\<rparr>"

text \<open>
  One call of the reducer. When \<^verbatim>\<open>acc[date]\<close> is a built-in, no bucket is made, the
  two additions to the totals land on the built-in, and reading
  \<^verbatim>\<open>.models[modelKey]\<close> of it throws a TypeError, since the built-in has no
  \<^verbatim>\<open>models\<close>.
\<close>

definition reducer :: "day_bucket js_object \<Rightarrow> UsageStat \<Rightarrow> js_exception + day_bucket js_object" where
  "reducer acc stat =
     (let d = date stat;
          acc1 = (case getProp acc d of
                    Undefined \<Rightarrow> AList.update d (emptyBucket d) acc
                  | _ \<Rightarrow> acc)
      in case getProp acc1 d of
           Own b \<Rightarrow> Inr (AList.update d (addToBucket stat b) acc1)
         | _ \<Rightarrow> Inl TypeError)"

fun reduce :: "day_bucket js_object \<Rightarrow> UsageStat list \<Rightarrow> js_exception + day_bucket js_object" where
  "reduce acc [] = Inr acc"
| "reduce acc (stat # rest) =
     (case reducer acc stat of Inl e \<Rightarrow> Inl e | Inr acc' \<Rightarrow> reduce acc' rest)"

definition groupedByDate :: "UsageStat list \<Rightarrow> js_exception + day_bucket js_object" where
  "groupedByDate usageStats = reduce [] usageStats"

text \<open>
  The comparator of the sort, \<^verbatim>\<open>new Date(b.date).getTime() - new Date(a.date).getTime()\<close>.
  The host's date parser is a parameter \<open>getTime\<close>: the milliseconds of a date string,
  or \<open>None\<close> where the string is no date and the host yields not-a-number.
\<close>

definition byDateDesc :: "(jsstring \<Rightarrow> int option) \<Rightarrow> day_bucket \<Rightarrow> day_bucket \<Rightarrow> int option" where
  "byDateDesc getTime a b =
     (case (getTime (date_b b), getTime (date_b a)) of
        (Some tb, Some ta) \<Rightarrow> Some (tb - ta)
      | _ \<Rightarrow> None)"

definition sortedStats :: "(jsstring \<Rightarrow> int option) \<Rightarrow> UsageStat list \<Rightarrow> js_exception + day_bucket list" where
  "sortedStats getTime usageStats =
     (case groupedByDate usageStats of
        Inl e \<Rightarrow> Inl e
      | Inr grouped \<Rightarrow> Inr (js_sort (byDateDesc getTime) (object_values grouped)))"

text \<open>
  What the component renders: the placeholder, or the statistics view with the three
  headline numbers and one card per bucket, each card listing the bucket's entries in
  \<^verbatim>\<open>Object.values\<close> order. The formatting of dates and numbers into text is the
  libraries' and is left out.
\<close>

datatype usage_view =
    NoData
  | Statistics int int nat "(day_bucket \<times> model_entry list) list"

definition UsageStatistics :: "(jsstring \<Rightarrow> int option) \<Rightarrow> UsageStat list \<Rightarrow> js_exception + usage_view" where
  "UsageStatistics getTime usageStats =
     (case sortedStats getTime usageStats of
        Inl e \<Rightarrow> Inl e
      | Inr stats \<Rightarrow>
          if length stats = 0 then Inr NoData
          else Inr (Statistics
                     (foldl (\<lambda>sum stat. sum + totalTokens stat) 0 stats)
                     (foldl (\<lambda>sum stat. sum + totalRequests stat) 0 stats)
                     (length stats)
                     (map (\<lambda>stat. (stat, object_values (models_b stat))) stats)))"



text \<open>
  A sample of the date parser's answers, for running the aggregator on concrete rows:
  the two ISO dates parse to midnight UTC of their day.
\<close>

definition sampleGetTime :: "jsstring \<Rightarrow> int option" where
  "sampleGetTime =
     map_of [(str ''2024-01-02'', 1704153600000), (str ''2024-01-03'', 1704240000000)]"

section \<open>The conversation list item\<close>

datatype js_date = DateString jsstring | DateObject int

record Conversation =
  id_c :: int
  user_id_c :: int
  title_c :: jsstring
  model_id_c :: "int option"
  system_prompt_c :: "jsstring option"
  is_pinned_c :: bool
  created_at_c :: js_date
  updated_at_c :: js_date

text \<open>
  The item's own state (\<^verbatim>\<open>isEditing\<close>, \<^verbatim>\<open>title\<close>) and the calls it makes to the
  callbacks it was given.
\<close>

record item_state =
  isEditing :: bool
  title_li :: jsstring

datatype item_call = OnClick | OnDelete | OnRename jsstring | OnTogglePin

definition initialItem :: "Conversation \<Rightarrow> item_state" where
  "initialItem conversation = \<lparr>isEditing = False, title_li = title_c conversation\<rparr>"

definition handleRename :: "item_state \<Rightarrow> item_state \<times> item_call list" where
  "handleRename st =
     (if truthy (trim (title_li st)) then (st\<lparr>isEditing := False\<rparr>, [OnRename (title_li st)])
      else (st, []))"

definition handleKeyDown :: "Conversation \<Rightarrow> jsstring \<Rightarrow> item_state \<Rightarrow> item_state \<times> item_call list" where
  "handleKeyDown conversation key st =
     (if key = str ''Enter'' then handleRename st
      else if key = str ''Escape'' then (st\<lparr>title_li := title_c conversation, isEditing := False\<rparr>, [])
      else (st, []))"

text \<open>
  The events of the rendered item. The text input exists only while editing, the pin
  and edit buttons only while not editing; an event on an element that is not rendered
  cannot happen and changes nothing. The three buttons stop the click from reaching
  the row, so only a click on the row itself calls \<^verbatim>\<open>onClick\<close>.
\<close>

datatype item_event =
    ClickRow | ClickPin | ClickEdit | ClickDelete
  | InputChange jsstring | InputBlur | InputKeyDown jsstring

fun itemEvent :: "Conversation \<Rightarrow> item_event \<Rightarrow> item_state \<Rightarrow> item_state \<times> item_call list" where
  "itemEvent conversation ClickRow st = (st, [OnClick])"
| "itemEvent conversation ClickPin st = (if isEditing st then (st, []) else (st, [OnTogglePin]))"
| "itemEvent conversation ClickEdit st =
     (if isEditing st then (st, []) else (st\<lparr>isEditing := True\<rparr>, []))"
| "itemEvent conversation ClickDelete st = (st, [OnDelete])"
| "itemEvent conversation (InputChange v) st =
     (if isEditing st then (st\<lparr>title_li := v\<rparr>, []) else (st, []))"
| "itemEvent conversation InputBlur st = (if isEditing st then handleRename st else (st, []))"
| "itemEvent conversation (InputKeyDown key) st =
     (if isEditing st then handleKeyDown conversation key st else (st, []))"

section \<open>Notifications and thrown values\<close>

text \<open>
  A caught value is an \<^verbatim>\<open>Error\<close> with its message, or something else. The toast's
  description is the message, or a fixed text for a value that is no \<^verbatim>\<open>Error\<close>.
  The user-facing texts are Chinese; they are given by their code units.
\<close>

datatype js_thrown = ErrorInstance jsstring | NotAnError

datatype toast_variant = Default | Destructive

record toast =
  title_t :: jsstring
  description_t :: jsstring
  variant_t :: toast_variant

definition unknownErrorText :: jsstring where
  "unknownErrorText = [0x53D1, 0x751F, 0x672A, 0x77E5, 0x9519, 0x8BEF]"

definition errorDescription :: "js_thrown \<Rightarrow> jsstring" where
  "errorDescription e = (case e of ErrorInstance msg \<Rightarrow> msg | NotAnError \<Rightarrow> unknownErrorText)"

definition failureToast :: "jsstring \<Rightarrow> js_thrown \<Rightarrow> toast" where
  "failureToast t e = \<lparr>title_t = t, description_t = errorDescription e, variant_t = Destructive\<rparr>"

section \<open>The new-conversation dialog\<close>

record dialog_state =
  title_d :: jsstring
  modelId :: "int option"
  systemPrompt :: jsstring
  isCreating :: bool

datatype dialog_call =
    OnCreateConversation jsstring "int option" "jsstring option"
  | OnOpenChange bool

text \<open>The default title, U+65B0 U+5BF9 U+8BDD ("new conversation").\<close>

definition defaultTitle :: jsstring where
  "defaultTitle = [0x65B0, 0x5BF9, 0x8BDD]"

definition createFailedText :: jsstring where
  "createFailedText = [0x521B, 0x5EFA, 0x5BF9, 0x8BDD, 0x5931, 0x8D25]"

definition initialDialog :: dialog_state where
  "initialDialog = \<lparr>title_d = defaultTitle, modelId = None, systemPrompt = [], isCreating = False\<rparr>"

text \<open>
  \<open>handleCreate\<close>, run until the promise of \<^verbatim>\<open>onCreateConversation\<close> has settled. How
  that promise settles is the parent's business and is an argument: \<open>None\<close> when it
  resolves, the thrown value when it rejects. The result is the dialog's state, the
  calls made to the parent and the toasts shown.
\<close>

definition handleCreate ::
  "js_thrown option \<Rightarrow> dialog_state \<Rightarrow> dialog_state \<times> dialog_call list \<times> toast list" where
  "handleCreate outcome st =
     (if \<not> truthy (trim (title_d st)) then (st, [], [])
      else
        let st1 = st\<lparr>isCreating := True\<rparr>;
            call = OnCreateConversation (title_d st) (modelId st)
                     (if truthy (systemPrompt st) then Some (systemPrompt st) else None)
        in case outcome of
             None \<Rightarrow>
               (st1\<lparr>title_d := defaultTitle, modelId := None, systemPrompt := [],
                    isCreating := False\<rparr>,
                [call, OnOpenChange False], [])
           | Some e \<Rightarrow>
               (st1\<lparr>isCreating := False\<rparr>, [call], [failureToast createFailedText e]))"

definition createDisabled :: "dialog_state \<Rightarrow> bool" where
  "createDisabled st = (\<not> truthy (trim (title_d st)) \<or> isCreating st)"

text \<open>A click on the create button: a disabled button does not call its handler.\<close>

definition clickCreate ::
  "js_thrown option \<Rightarrow> dialog_state \<Rightarrow> dialog_state \<times> dialog_call list \<times> toast list" where
  "clickCreate outcome st = (if createDisabled st then (st, [], []) else handleCreate outcome st)"

section \<open>The assistant's state and its loaders\<close>

datatype message_role = User | Assistant | System

record Message =
  id_m :: int
  conversation_id_m :: int
  role_m :: message_role
  content_m :: jsstring
  tokens_used_m :: "int option"
  created_at_m :: js_date

record AiModel =
  id_a :: int
  name_a :: jsstring
  provider_a :: jsstring
  model_id_a :: jsstring
  description_a :: "jsstring option"
  is_active_a :: bool
  created_at_a :: js_date
  updated_at_a :: js_date

record UserPreference =
  user_id_p :: int
  default_model_id_p :: "int option"
  default_system_prompt_p :: "jsstring option"
  temperature_p :: real
  max_tokens_p :: int
  theme_p :: jsstring
  language_p :: jsstring
  created_at_p :: js_date
  updated_at_p :: js_date

text \<open>
  The requests the loaders send, all GET: the conversation list
  (\<^verbatim>\<open>/api/ai-assistant/conversations\<close>), one conversation with its messages
  (\<^verbatim>\<open>/api/ai-assistant/conversations/{id}\<close>), the models, the preferences and the usage
  rows.
\<close>

datatype request =
    GetConversations | GetConversation int | GetModels | GetPreferences | GetUsage

text \<open>
  How a \<^verbatim>\<open>fetch\<close> ends: the promise rejects with a thrown value, or it yields a
  response with its \<^verbatim>\<open>ok\<close> flag and a body whose \<^verbatim>\<open>json()\<close> either rejects or yields
  the data. A body that parses is taken to have the field the call site reads. The
  backend is not part of the repository; what it answers is an argument of every loader.
\<close>

datatype 'a fetch_result = Rejects js_thrown | Responds bool "js_thrown + 'a"

record backend =
  conversationsResponse :: "Conversation list fetch_result"
  messagesResponse :: "int \<Rightarrow> Message list fetch_result"
  modelsResponse :: "AiModel list fetch_result"
  preferencesResponse :: "UserPreference option fetch_result"
  usageResponse :: "UsageStat list fetch_result"

text \<open>
  The first three lines of every \<^verbatim>\<open>try\<close> block: await the fetch, throw an
  \<^verbatim>\<open>Error\<close> with the loader's text when the response is not ok, await the body.
\<close>

definition awaitData :: "jsstring \<Rightarrow> 'a fetch_result \<Rightarrow> js_thrown + 'a" where
  "awaitData failText r =
     (case r of
        Rejects e \<Rightarrow> Inl e
      | Responds ok body \<Rightarrow> if \<not> ok then Inl (ErrorInstance failText) else body)"

text \<open>
  The state of \<open>DbAssistant\<close> that the loaders read and write, and, as three more
  fields, what they do to the outside: the lines written with \<^verbatim>\<open>console.error\<close>, the
  toasts shown and the requests sent, each in order.
\<close>

record assistant =
  conversations :: "Conversation list"
  currentConversation :: "Conversation option"
  messages :: "Message list"
  models :: "AiModel list"
  preferences :: "UserPreference option"
  usageStats :: "UsageStat list"
  isLoadingConversations :: bool
  isLoadingMessages :: bool
  isLoadingModels :: bool
  isLoadingPreferences :: bool
  isLoadingUsageStats :: bool
  console :: "(jsstring \<times> js_thrown) list"
  toasts :: "toast list"
  fetched :: "request list"

definition initialAssistant :: assistant where
  "initialAssistant =
     \<lparr>conversations = [], currentConversation = None, messages = [], models = [],
      preferences = None, usageStats = [],
      isLoadingConversations = True, isLoadingMessages = False, isLoadingModels = True,
      isLoadingPreferences = True, isLoadingUsageStats = False,
      console = [], toasts = [], fetched = []\<rparr>"

text \<open>The data the assistant holds: the five pieces of state the loaders fill.\<close>

definition heldData ::
  "assistant \<Rightarrow> Conversation list \<times> Conversation option \<times> Message list \<times> AiModel list
     \<times> UserPreference option \<times> UsageStat list" where
  "heldData s =
     (conversations s, currentConversation s, messages s, models s, preferences s, usageStats s)"

text \<open>
  The failure texts ("loading the conversation list failed", "... the messages ...",
  "... the AI models ...", "... the user preferences ...", "... the usage statistics
  ..."). The console line is the text followed by a colon.
\<close>

definition conversationsFailedText :: jsstring where
  "conversationsFailedText = [0x52A0, 0x8F7D, 0x5BF9, 0x8BDD, 0x5217, 0x8868, 0x5931, 0x8D25]"

definition messagesFailedText :: jsstring where
  "messagesFailedText = [0x52A0, 0x8F7D, 0x5BF9, 0x8BDD, 0x6D88, 0x606F, 0x5931, 0x8D25]"

definition modelsFailedText :: jsstring where
  "modelsFailedText = [0x52A0, 0x8F7D, 0x0041, 0x0049, 0x6A21, 0x578B, 0x5931, 0x8D25]"

definition preferencesFailedText :: jsstring where
  "preferencesFailedText =
     [0x52A0, 0x8F7D, 0x7528, 0x6237, 0x504F, 0x597D, 0x8BBE, 0x7F6E, 0x5931, 0x8D25]"

definition usageFailedText :: jsstring where
  "usageFailedText = [0x52A0, 0x8F7D, 0x4F7F, 0x7528, 0x7EDF, 0x8BA1, 0x5931, 0x8D25]"

definition consoleError :: "jsstring \<Rightarrow> js_thrown \<Rightarrow> assistant \<Rightarrow> assistant" where
  "consoleError failText e s = s\<lparr>console := console s @ [(failText @ str '':'', e)]\<rparr>"

definition showToast :: "toast \<Rightarrow> assistant \<Rightarrow> assistant" where
  "showToast t s = s\<lparr>toasts := toasts s @ [t]\<rparr>"

definition sendRequest :: "request \<Rightarrow> assistant \<Rightarrow> assistant" where
  "sendRequest r s = s\<lparr>fetched := fetched s @ [r]\<rparr>"

text \<open>
  Each loader is run until its promise has settled and returns the state then. The
  order of its steps is the source's: the loading flag, the fetch, the \<^verbatim>\<open>try\<close> body or
  the \<^verbatim>\<open>catch\<close> body, the \<^verbatim>\<open>finally\<close> block.
\<close>

definition loadMessages :: "backend \<Rightarrow> int \<Rightarrow> assistant \<Rightarrow> assistant" where
  "loadMessages api conversationId s =
     (let s1 = sendRequest (GetConversation conversationId) (s\<lparr>isLoadingMessages := True\<rparr>);
          s2 = (case awaitData messagesFailedText (messagesResponse api conversationId) of
                  Inr ms \<Rightarrow> s1\<lparr>messages := ms\<rparr>
                | Inl e \<Rightarrow>
                    showToast (failureToast messagesFailedText e)
                      (consoleError messagesFailedText e s1))
      in s2\<lparr>isLoadingMessages := False\<rparr>)"

text \<open>
  \<open>loadConversations\<close> tests the \<^verbatim>\<open>currentConversation\<close> of the render it was made
  in, which is the one of the state it starts from. It does not await
  \<open>loadMessages\<close>; the two touch different fields, so the state after both have
  settled is the one computed here.
\<close>

definition loadConversations :: "backend \<Rightarrow> assistant \<Rightarrow> assistant" where
  "loadConversations api s =
     (let s1 = sendRequest GetConversations (s\<lparr>isLoadingConversations := True\<rparr>);
          s2 = (case awaitData conversationsFailedText (conversationsResponse api) of
                  Inr cs \<Rightarrow>
                    (let s' = s1\<lparr>conversations := cs\<rparr>
                     in case cs of
                          c # _ \<Rightarrow>
                            if currentConversation s = None
                            then loadMessages api (id_c c) (s'\<lparr>currentConversation := Some c\<rparr>)
                            else s'
                        | [] \<Rightarrow> s')
                | Inl e \<Rightarrow>
                    showToast (failureToast conversationsFailedText e)
                      (consoleError conversationsFailedText e s1))
      in s2\<lparr>isLoadingConversations := False\<rparr>)"

definition loadModels :: "backend \<Rightarrow> assistant \<Rightarrow> assistant" where
  "loadModels api s =
     (let s1 = sendRequest GetModels (s\<lparr>isLoadingModels := True\<rparr>);
          s2 = (case awaitData modelsFailedText (modelsResponse api) of
                  Inr ms \<Rightarrow> s1\<lparr>models := ms\<rparr>
                | Inl e \<Rightarrow>
                    showToast (failureToast modelsFailedText e)
                      (consoleError modelsFailedText e s1))
      in s2\<lparr>isLoadingModels := False\<rparr>)"

text \<open>
  \<open>loadPreferences\<close> logs a failure and shows no toast: its \<^verbatim>\<open>catch\<close> block says that
  no error notice is shown, since the user may be new and have no preferences yet.
\<close>

definition loadPreferences :: "backend \<Rightarrow> assistant \<Rightarrow> assistant" where
  "loadPreferences api s =
     (let s1 = sendRequest GetPreferences (s\<lparr>isLoadingPreferences := True\<rparr>);
          s2 = (case awaitData preferencesFailedText (preferencesResponse api) of
                  Inr p \<Rightarrow> s1\<lparr>preferences := p\<rparr>
                | Inl e \<Rightarrow> consoleError preferencesFailedText e s1)
      in s2\<lparr>isLoadingPreferences := False\<rparr>)"

definition loadUsageStats :: "backend \<Rightarrow> assistant \<Rightarrow> assistant" where
  "loadUsageStats api s =
     (let s1 = sendRequest GetUsage (s\<lparr>isLoadingUsageStats := True\<rparr>);
          s2 = (case awaitData usageFailedText (usageResponse api) of
                  Inr us \<Rightarrow> s1\<lparr>usageStats := us\<rparr>
                | Inl e \<Rightarrow>
                    showToast (failureToast usageFailedText e)
                      (consoleError usageFailedText e s1))
      in s2\<lparr>isLoadingUsageStats := False\<rparr>)"

section \<open>Handlers the source file does not reach\<close>

text \<open>
  Modelled from the spec: the effect that runs when \<open>DbAssistant\<close> mounts is missing;
  the source file ends inside \<^verbatim>\<open>createConversation\<close>, before it. The spec says: "on
  mount, fetch the conversation list; if one exists and none is selected, select the
  first and fetch its messages". The fetching and selecting is \<open>loadConversations\<close>,
  which is in the source; the missing part is that mounting calls it on the initial
  state.
\<close>

definition onMount :: "backend \<Rightarrow> assistant" where
  "onMount api = loadConversations api initialAssistant"

text \<open>
  Modelled from the spec: the handler that runs when the user picks a conversation in
  the list is missing, for the same reason. The spec says: "On conversation switch,
  fetch that conversation's messages, replacing the displayed set". The fetching and
  replacing is \<open>loadMessages\<close>, which is in the source; the missing part is that the
  switch makes the picked conversation the current one and calls it.
\<close>

definition switchConversation :: "backend \<Rightarrow> Conversation \<Rightarrow> assistant \<Rightarrow> assistant" where
  "switchConversation api c s = loadMessages api (id_c c) (s\<lparr>currentConversation := Some c\<rparr>)"

text \<open>
  Modelled from the spec: the handler behind the list item's \<^verbatim>\<open>onDelete\<close> is missing,
  for the same reason. The spec says: "Deleting a conversation removes exactly one item
  from the list and, if it was selected, clears the message view". Nothing else is said
  of it, and nothing else is modelled.
\<close>

definition deleteConversation :: "Conversation \<Rightarrow> assistant \<Rightarrow> assistant" where
  "deleteConversation c s =
     (let s1 = s\<lparr>conversations := remove1 c (conversations s)\<rparr>
      in if currentConversation s = Some c then s1\<lparr>messages := []\<rparr> else s1)"

section \<open>Sample data\<close>

text \<open>
  Concrete rows, conversations, messages and backends on which the definitions above
  are run.
\<close>

definition sampleRows :: "UsageStat list" where
  "sampleRows =
     [\<lparr>date = str ''2024-01-02'', tokens_used = 10, request_count = 1,
       model_name = str ''gpt-4'', provider = str ''openai''\<rparr>,
      \<lparr>date = str ''2024-01-03'', tokens_used = 5, request_count = 2,
       model_name = str ''claude'', provider = str ''anthropic''\<rparr>,
      \<lparr>date = str ''2024-01-02'', tokens_used = 7, request_count = 3,
       model_name = str ''gpt-4'', provider = str ''openai''\<rparr>]"


definition sampleConversation :: Conversation where
  "sampleConversation =
     \<lparr>id_c = 1, user_id_c = 7, title_c = str ''First'', model_id_c = None,
      system_prompt_c = None, is_pinned_c = False,
      created_at_c = DateString (str ''2024-01-02''),
      updated_at_c = DateString (str ''2024-01-02'')\<rparr>"

definition otherConversation :: Conversation where
  "otherConversation =
     \<lparr>id_c = 2, user_id_c = 7, title_c = str ''Second'', model_id_c = Some 3,
      system_prompt_c = None, is_pinned_c = True,
      created_at_c = DateString (str ''2024-01-03''),
      updated_at_c = DateString (str ''2024-01-03'')\<rparr>"

definition sampleMessage :: Message where
  "sampleMessage =
     \<lparr>id_m = 10, conversation_id_m = 1, role_m = User, content_m = str ''hello'',
      tokens_used_m = None, created_at_m = DateString (str ''2024-01-02'')\<rparr>"

definition otherMessage :: Message where
  "otherMessage =
     \<lparr>id_m = 11, conversation_id_m = 2, role_m = Assistant, content_m = str ''welcome'',
      tokens_used_m = Some 4, created_at_m = DateString (str ''2024-01-03'')\<rparr>"

definition sampleBackend :: backend where
  "sampleBackend =
     \<lparr>conversationsResponse = Responds True (Inr [sampleConversation, otherConversation]),
      messagesResponse =
        (\<lambda>i. if i = 1 then Responds True (Inr [sampleMessage])
             else if i = 2 then Responds True (Inr [otherMessage])
             else Responds False (Inr [])),
      modelsResponse = Responds True (Inr []),
      preferencesResponse = Responds True (Inr None),
      usageResponse = Responds True (Inr sampleRows)\<rparr>"

text \<open>
  A backend every request to which fails, in each of the three ways: a rejected fetch
  (with an \<^verbatim>\<open>Error\<close>, or with another value), a response that is not ok, and a body
  that does not parse.
\<close>

definition failingBackend :: backend where
  "failingBackend =
     \<lparr>conversationsResponse = Rejects (ErrorInstance (str ''Failed to fetch'')),
      messagesResponse = (\<lambda>i. Responds False (Inr [])),
      modelsResponse = Responds True (Inl (ErrorInstance (str ''Unexpected token''))),
      preferencesResponse = Rejects (ErrorInstance (str ''Failed to fetch'')),
      usageResponse = Rejects NotAnError\<rparr>"

text \<open>A state in which the assistant holds data: one conversation, selected, and its message.\<close>

definition busyAssistant :: assistant where
  "busyAssistant =
     initialAssistant
       \<lparr>conversations := [sampleConversation, otherConversation],
        currentConversation := Some sampleConversation,
        messages := [sampleMessage],
        usageStats := sampleRows,
        isLoadingConversations := False, isLoadingModels := False,
        isLoadingPreferences := False\<rparr>"

section \<open>Blank titles\<close>

lemma all_dropWhile_iff: "(\<forall>x\<in>set (dropWhile P s). P x) \<longleftrightarrow> (\<forall>x\<in>set s. P x)"
proof
  assume a: "\<forall>x\<in>set (dropWhile P s). P x"
  have "dropWhile P s = []"
  proof (rule ccontr)
    assume n: "dropWhile P s \<noteq> []"
    then have "\<not> P (hd (dropWhile P s))" by (rule hd_dropWhile)
    moreover have "hd (dropWhile P s) \<in> set (dropWhile P s)" using n by simp
    ultimately show False using a by blast
  qed
  then show "\<forall>x\<in>set s. P x" by (simp add: dropWhile_eq_Nil_conv)
next
  assume "\<forall>x\<in>set s. P x"
  then show "\<forall>x\<in>set (dropWhile P s). P x" by (meson set_dropWhileD)
qed

text \<open>Trimming leaves nothing exactly when the string is empty or all white space.\<close>

lemma trim_blank_iff: "trim t = [] \<longleftrightarrow> list_all isWhiteSpace t"
  by (simp add: trim_def dropWhile_eq_Nil_conv all_dropWhile_iff list_all_iff)

text \<open>
  Claim C7. In a conversation list item, submitting a rename while the edited title is
  empty or all white space does nothing: \<^verbatim>\<open>onRename\<close> is not called and the item's state
  stays as it was (so the title shown is the conversation's old one and the item is
  still in edit mode). A rename is submitted by \<open>handleRename\<close>, which the input calls
  when it loses the focus and when Enter is pressed.
\<close>

theorem blank_rename_is_noop:
  assumes "list_all isWhiteSpace (title_li st)"
  shows "handleRename st = (st, [])
       \<and> itemEvent conversation InputBlur st = (st, [])
       \<and> itemEvent conversation (InputKeyDown (str ''Enter'')) st = (st, [])"
  using assms by (simp add: handleRename_def handleKeyDown_def truthy_def trim_blank_iff)

theorem blank_rename_is_noop_witness:
  "list_all isWhiteSpace (title_li \<lparr>isEditing = True, title_li = [0x20, 0x3000, 0x09]\<rparr>)
   \<and> handleRename \<lparr>isEditing = True, title_li = [0x20, 0x3000, 0x09]\<rparr>
       = (\<lparr>isEditing = True, title_li = [0x20, 0x3000, 0x09]\<rparr>, [])
   \<and> itemEvent sampleConversation InputBlur \<lparr>isEditing = True, title_li = [0x20, 0x3000, 0x09]\<rparr>
       = (\<lparr>isEditing = True, title_li = [0x20, 0x3000, 0x09]\<rparr>, [])"
  using blank_rename_is_noop
          [of "\<lparr>isEditing = True, title_li = [0x20, 0x3000, 0x09]\<rparr>" sampleConversation]
  by (simp add: isWhiteSpace_def)

text \<open>
  Claim C10. In the new-conversation dialog, a title that is empty or all white space
  is rejected: \<open>handleCreate\<close> returns at once, with no call and no change, and the
  create button is disabled. So no call of \<^verbatim>\<open>onCreateConversation\<close> that \<open>handleCreate\<close>
  makes carries a blank title. When the title is not blank and the creation succeeds,
  the three form fields are back at their defaults, the parent was asked to close the
  dialog (\<^verbatim>\<open>onOpenChange(false)\<close>), and that after the one call that creates.
\<close>

theorem blank_title_never_created:
  "(list_all isWhiteSpace (title_d st) \<longrightarrow>
      handleCreate outcome st = (st, [], []) \<and> createDisabled st
    \<and> clickCreate outcome st = (st, [], []))
   \<and> (\<forall>t m p. OnCreateConversation t m p \<in> set (fst (snd (handleCreate outcome st)))
                \<longrightarrow> \<not> list_all isWhiteSpace t)
   \<and> (\<not> list_all isWhiteSpace (title_d st) \<longrightarrow>
        handleCreate None st =
          (\<lparr>title_d = defaultTitle, modelId = None, systemPrompt = [], isCreating = False\<rparr>,
           [OnCreateConversation (title_d st) (modelId st)
              (if systemPrompt st = [] then None else Some (systemPrompt st)),
            OnOpenChange False],
           []))"
  by (cases st)
     (auto simp: handleCreate_def createDisabled_def clickCreate_def truthy_def
        trim_blank_iff Let_def split: option.splits)

theorem blank_title_never_created_witness:
  "list_all isWhiteSpace (title_d (initialDialog\<lparr>title_d := [0x20, 0x3000]\<rparr>))
   \<and> handleCreate None (initialDialog\<lparr>title_d := [0x20, 0x3000]\<rparr>)
        = (initialDialog\<lparr>title_d := [0x20, 0x3000]\<rparr>, [], [])
   \<and> createDisabled (initialDialog\<lparr>title_d := [0x20, 0x3000]\<rparr>)
   \<and> \<not> list_all isWhiteSpace
         (title_d (initialDialog\<lparr>title_d := str ''Plan'', systemPrompt := str ''Be brief''\<rparr>))
   \<and> handleCreate None (initialDialog\<lparr>title_d := str ''Plan'', systemPrompt := str ''Be brief''\<rparr>)
        = (initialDialog,
           [OnCreateConversation (str ''Plan'') None (Some (str ''Be brief'')),
            OnOpenChange False], [])"
  using blank_title_never_created [of "initialDialog\<lparr>title_d := [0x20, 0x3000]\<rparr>" None]
        blank_title_never_created
          [of "initialDialog\<lparr>title_d := str ''Plan'', systemPrompt := str ''Be brief''\<rparr>" None]
  by (simp add: initialDialog_def isWhiteSpace_def str_def)

section \<open>Loading, selecting and deleting\<close>

text \<open>
  Claim C4, as amended. When a fetch fails (the request is rejected, the response is not
  ok, or its body does not parse), the loader sends no second request and leaves the
  held conversations, current conversation, messages, models, preferences and usage
  rows as they were; it writes one line to the console; and \<open>loadConversations\<close>,
  \<open>loadMessages\<close>, \<open>loadModels\<close> and \<open>loadUsageStats\<close> show one destructive toast, whereas
  \<open>loadPreferences\<close> shows none.
\<close>

theorem fetch_failure_handling:
  "(awaitData conversationsFailedText (conversationsResponse api) = Inl e \<longrightarrow>
       heldData (loadConversations api s) = heldData s
     \<and> console (loadConversations api s) = console s @ [(conversationsFailedText @ str '':'', e)]
     \<and> toasts (loadConversations api s) = toasts s @ [failureToast conversationsFailedText e]
     \<and> fetched (loadConversations api s) = fetched s @ [GetConversations])
   \<and> (awaitData messagesFailedText (messagesResponse api i) = Inl e \<longrightarrow>
       heldData (loadMessages api i s) = heldData s
     \<and> console (loadMessages api i s) = console s @ [(messagesFailedText @ str '':'', e)]
     \<and> toasts (loadMessages api i s) = toasts s @ [failureToast messagesFailedText e]
     \<and> fetched (loadMessages api i s) = fetched s @ [GetConversation i])
   \<and> (awaitData modelsFailedText (modelsResponse api) = Inl e \<longrightarrow>
       heldData (loadModels api s) = heldData s
     \<and> console (loadModels api s) = console s @ [(modelsFailedText @ str '':'', e)]
     \<and> toasts (loadModels api s) = toasts s @ [failureToast modelsFailedText e]
     \<and> fetched (loadModels api s) = fetched s @ [GetModels])
   \<and> (awaitData usageFailedText (usageResponse api) = Inl e \<longrightarrow>
       heldData (loadUsageStats api s) = heldData s
     \<and> console (loadUsageStats api s) = console s @ [(usageFailedText @ str '':'', e)]
     \<and> toasts (loadUsageStats api s) = toasts s @ [failureToast usageFailedText e]
     \<and> fetched (loadUsageStats api s) = fetched s @ [GetUsage])
   \<and> (awaitData preferencesFailedText (preferencesResponse api) = Inl e \<longrightarrow>
       heldData (loadPreferences api s) = heldData s
     \<and> console (loadPreferences api s) = console s @ [(preferencesFailedText @ str '':'', e)]
     \<and> toasts (loadPreferences api s) = toasts s
     \<and> fetched (loadPreferences api s) = fetched s @ [GetPreferences])"
  by (simp add: loadConversations_def loadMessages_def loadModels_def loadUsageStats_def
        loadPreferences_def heldData_def sendRequest_def showToast_def consoleError_def)

theorem fetch_failure_handling_witness:
  "awaitData conversationsFailedText (conversationsResponse failingBackend)
     = Inl (ErrorInstance (str ''Failed to fetch''))
   \<and> heldData (loadConversations failingBackend busyAssistant) = heldData busyAssistant
   \<and> toasts (loadConversations failingBackend busyAssistant)
       = [failureToast conversationsFailedText (ErrorInstance (str ''Failed to fetch''))]
   \<and> awaitData preferencesFailedText (preferencesResponse failingBackend)
       = Inl (ErrorInstance (str ''Failed to fetch''))
   \<and> heldData (loadPreferences failingBackend busyAssistant) = heldData busyAssistant
   \<and> toasts (loadPreferences failingBackend busyAssistant) = []
   \<and> awaitData messagesFailedText (messagesResponse failingBackend 1)
       = Inl (ErrorInstance messagesFailedText)
   \<and> heldData (loadMessages failingBackend 1 busyAssistant) = heldData busyAssistant
   \<and> fetched (loadMessages failingBackend 1 busyAssistant) = [GetConversation 1]
   \<and> awaitData modelsFailedText (modelsResponse failingBackend)
       = Inl (ErrorInstance (str ''Unexpected token''))
   \<and> heldData (loadModels failingBackend busyAssistant) = heldData busyAssistant
   \<and> awaitData usageFailedText (usageResponse failingBackend) = Inl NotAnError
   \<and> heldData (loadUsageStats failingBackend busyAssistant) = heldData busyAssistant
   \<and> toasts (loadUsageStats failingBackend busyAssistant)
       = [\<lparr>title_t = usageFailedText, description_t = unknownErrorText,
           variant_t = Destructive\<rparr>]"
  using fetch_failure_handling
          [of failingBackend "ErrorInstance (str ''Failed to fetch'')" busyAssistant 1]
        fetch_failure_handling
          [of failingBackend "ErrorInstance messagesFailedText" busyAssistant 1]
        fetch_failure_handling
          [of failingBackend "ErrorInstance (str ''Unexpected token'')" busyAssistant 1]
        fetch_failure_handling [of failingBackend NotAnError busyAssistant 1]
  by (simp add: failingBackend_def awaitData_def busyAssistant_def initialAssistant_def
        failureToast_def errorDescription_def)

text \<open>
  The claim as it was made fails at \<open>loadPreferences\<close>: its fetch fails, and no toast is
  shown.
\<close>

theorem preferences_failure_shows_no_toast:
  "awaitData preferencesFailedText (preferencesResponse failingBackend)
     = Inl (ErrorInstance (str ''Failed to fetch''))
   \<and> toasts (loadPreferences failingBackend initialAssistant) = []"
  by (simp add: failingBackend_def awaitData_def loadPreferences_def initialAssistant_def
        sendRequest_def consoleError_def)

text \<open>
  Claim C5. When the conversation list arrives, it becomes the held list. If it is not
  empty and no conversation was selected, its first conversation becomes the current one
  and that conversation's messages are requested and loaded; if it is empty or a
  conversation was selected, the selection and the messages stay and nothing more is
  requested. Mounting does this from the initial state, in which nothing is selected.
\<close>

theorem mount_selects_first:
  assumes "conversationsResponse api = Responds True (Inr cs)"
  shows "conversations (loadConversations api s) = cs
       \<and> (cs \<noteq> [] \<and> currentConversation s = None \<longrightarrow>
            currentConversation (loadConversations api s) = Some (hd cs)
          \<and> fetched (loadConversations api s)
              = fetched s @ [GetConversations, GetConversation (id_c (hd cs))]
          \<and> messages (loadConversations api s) = messages (loadMessages api (id_c (hd cs)) s))
       \<and> (cs = [] \<or> currentConversation s \<noteq> None \<longrightarrow>
            currentConversation (loadConversations api s) = currentConversation s
          \<and> messages (loadConversations api s) = messages s
          \<and> fetched (loadConversations api s) = fetched s @ [GetConversations])
       \<and> fetched (onMount api)
            = (if cs = [] then [GetConversations]
               else [GetConversations, GetConversation (id_c (hd cs))])
       \<and> currentConversation (onMount api) = (if cs = [] then None else Some (hd cs))"
  using assms
  by (cases cs)
     (auto simp: loadConversations_def loadMessages_def onMount_def initialAssistant_def
        awaitData_def sendRequest_def showToast_def consoleError_def Let_def
        split: sum.splits)

theorem mount_selects_first_witness:
  "conversationsResponse sampleBackend
     = Responds True (Inr [sampleConversation, otherConversation])
   \<and> currentConversation initialAssistant = None
   \<and> currentConversation (onMount sampleBackend) = Some sampleConversation
   \<and> messages (loadConversations sampleBackend initialAssistant) = [sampleMessage]
   \<and> currentConversation (busyAssistant\<lparr>currentConversation := Some otherConversation\<rparr>) \<noteq> None
   \<and> currentConversation
        (loadConversations sampleBackend
           (busyAssistant\<lparr>currentConversation := Some otherConversation\<rparr>))
        = Some otherConversation"
  using mount_selects_first
          [of sampleBackend "[sampleConversation, otherConversation]" initialAssistant]
        mount_selects_first
          [of sampleBackend "[sampleConversation, otherConversation]"
              "busyAssistant\<lparr>currentConversation := Some otherConversation\<rparr>"]
  by (simp add: sampleBackend_def initialAssistant_def busyAssistant_def loadMessages_def
        awaitData_def sendRequest_def sampleConversation_def)

text \<open>
  Claim C6. When the messages of a conversation arrive, they are the displayed messages,
  whatever was displayed before; switching to a conversation requests exactly that
  conversation's messages and makes it the current one.
\<close>

theorem switch_replaces_messages:
  assumes "messagesResponse api (id_c c) = Responds True (Inr ms)"
  shows "messages (loadMessages api (id_c c) s) = ms
       \<and> messages (switchConversation api c s) = ms
       \<and> currentConversation (switchConversation api c s) = Some c
       \<and> fetched (switchConversation api c s) = fetched s @ [GetConversation (id_c c)]"
  using assms
  by (simp add: loadMessages_def switchConversation_def awaitData_def sendRequest_def)

theorem switch_replaces_messages_witness:
  "messagesResponse sampleBackend (id_c otherConversation) = Responds True (Inr [otherMessage])
   \<and> messages busyAssistant = [sampleMessage]
   \<and> messages (switchConversation sampleBackend otherConversation busyAssistant) = [otherMessage]"
  using switch_replaces_messages [of sampleBackend otherConversation "[otherMessage]" busyAssistant]
  by (simp add: sampleBackend_def otherConversation_def busyAssistant_def initialAssistant_def)

lemma filter_remove1_self: "[x \<leftarrow> remove1 c xs. x \<noteq> c] = [x \<leftarrow> xs. x \<noteq> c]"
  by (induction xs) auto

text \<open>
  Claim C8. The delete button of a list item calls \<^verbatim>\<open>onDelete\<close> and nothing else.
  Deleting a conversation that is in the list takes exactly that one item out of it, the
  others staying as they were and in their order; the displayed messages are cleared if
  the conversation was the current one, and stay otherwise.
\<close>

theorem delete_removes_one:
  assumes "c \<in> set (conversations s)"
  shows "mset (conversations (deleteConversation c s)) = mset (conversations s) - {#c#}
       \<and> length (conversations (deleteConversation c s)) + 1 = length (conversations s)
       \<and> [x \<leftarrow> conversations (deleteConversation c s). x \<noteq> c]
           = [x \<leftarrow> conversations s. x \<noteq> c]
       \<and> (currentConversation s = Some c \<longrightarrow> messages (deleteConversation c s) = [])
       \<and> (currentConversation s \<noteq> Some c \<longrightarrow> messages (deleteConversation c s) = messages s)
       \<and> itemEvent c ClickDelete st = (st, [OnDelete])"
proof -
  have "length (conversations s) > 0" using assms by (cases "conversations s") auto
  then show ?thesis using assms
    by (simp add: deleteConversation_def Let_def length_remove1 filter_remove1_self)
qed

theorem delete_removes_one_witness:
  "sampleConversation \<in> set (conversations busyAssistant)
   \<and> currentConversation busyAssistant = Some sampleConversation
   \<and> conversations (deleteConversation sampleConversation busyAssistant) = [otherConversation]
   \<and> messages (deleteConversation sampleConversation busyAssistant) = []
   \<and> otherConversation \<in> set (conversations busyAssistant)
   \<and> currentConversation busyAssistant \<noteq> Some otherConversation
   \<and> messages (deleteConversation otherConversation busyAssistant) = [sampleMessage]"
  using delete_removes_one [of sampleConversation busyAssistant]
        delete_removes_one [of otherConversation busyAssistant]
  by (simp add: busyAssistant_def initialAssistant_def deleteConversation_def
        sampleConversation_def otherConversation_def)

section \<open>The usage aggregator\<close>

text \<open>
  Claim C3. For an empty list of usage rows the aggregator yields no bucket, and the
  component renders the placeholder and not the statistics.
\<close>

theorem empty_usage_no_data:
  "sortedStats getTime [] = Inr [] \<and> UsageStatistics getTime [] = Inr NoData"
  by (simp add: sortedStats_def groupedByDate_def object_values_def js_sort_def
        UsageStatistics_def)

subsection \<open>The reducer, step by step\<close>

















































subsection \<open>Grouping and order\<close>




text \<open>
  Why the order is claimed for dates that parse: the comparator yields not-a-number for
  a date that does not, which the sort takes for "equal", and the buckets of the dates
  around it are then left in the order of their first rows.
\<close>

lemma unparsable_date_keeps_insertion_order:
  "map_sum id (map date_b)
     (sortedStats sampleGetTime
        [\<lparr>date = str ''2024-01-02'', tokens_used = 10, request_count = 1,
          model_name = str ''gpt-4'', provider = str ''openai''\<rparr>,
         \<lparr>date = str ''someday'', tokens_used = 1, request_count = 1,
          model_name = str ''gpt-4'', provider = str ''openai''\<rparr>,
         \<lparr>date = str ''2024-01-03'', tokens_used = 5, request_count = 2,
          model_name = str ''claude'', provider = str ''anthropic''\<rparr>])
     = Inr [str ''2024-01-02'', str ''someday'', str ''2024-01-03'']"
  by code_simp

subsection \<open>Totals do not depend on the order of the rows\<close>







subsection \<open>Totals add up\<close>



end
